theory Spec2Isabelle
  imports Complex_Main "HOL-Library.AList" "HOL-Library.Multiset"
begin

section \<open>Python values and errors\<close>

text \<open>
  The exceptions the source can raise are values: a call returns \<open>Inl e\<close> when it
  raises \<open>e\<close> and \<open>Inr v\<close> when it returns \<open>v\<close>. Python floats are modelled by
  \<open>real\<close>; the element-amount dictionary of a composition (pymatgen's
  \<open>get_el_amt_dict\<close>) is an association list in the dictionary's iteration order.
\<close>

datatype error =
    ValueError string
  | ZeroDivisionError
  | IndexError
  | KeyError
  | AttributeError
  | TypeError
  | LookupError

type_synonym el_amt_dict = "(string \<times> real) list"

text \<open>Sequencing: the first exception raised ends the computation.\<close>

fun bind_err :: "error + 'a \<Rightarrow> ('a \<Rightarrow> error + 'b) \<Rightarrow> error + 'b" where
  "bind_err (Inl e) f = Inl e"
| "bind_err (Inr v) f = f v"

text \<open>Python's \<open>a / b\<close> on floats.\<close>

definition py_div :: "real \<Rightarrow> real \<Rightarrow> error + real" where
  "py_div a b = (if b = 0 then Inl ZeroDivisionError else Inr (a / b))"

text \<open>Python's \<open>int(x)\<close> on a float: truncation toward zero.\<close>

definition py_int :: "real \<Rightarrow> int" where
  "py_int x = (if 0 \<le> x then \<lfloor>x\<rfloor> else \<lceil>x\<rceil>)"

text \<open>Python's \<open>xs[i]\<close>: a negative index counts from the end.\<close>

definition py_get :: "'a list \<Rightarrow> int \<Rightarrow> error + 'a" where
  "py_get xs i =
     (if 0 \<le> i \<and> i < int (length xs) then Inr (xs ! nat i)
      else if i < 0 \<and> - int (length xs) \<le> i then Inr (xs ! nat (int (length xs) + i))
      else Inl IndexError)"




section \<open>StoichiometricAttribute\<close>

text \<open>
  The inner loop \<open>for j in el_amt: p_norms[i] += (el_amt[j] / n_atoms) ** p\<close>,
  started from the current value of \<open>p_norms[i]\<close>.
\<close>

fun sum_fracs :: "real \<Rightarrow> nat \<Rightarrow> real \<Rightarrow> el_amt_dict \<Rightarrow> error + real" where
  "sum_fracs n p acc [] = Inr acc"
| "sum_fracs n p acc ((el, amt) # rest) =
     bind_err (py_div amt n) (\<lambda>f. sum_fracs n p (acc + f ^ p) rest)"

text \<open>
  The loop \<open>for i in range(len(self.p_list))\<close> over the state \<open>p_norms\<close>; the
  third argument is the part of \<open>p_list\<close> from index \<open>i\<close> on.
\<close>

fun stoich_loop :: "el_amt_dict \<Rightarrow> real \<Rightarrow> int list \<Rightarrow> nat \<Rightarrow> real list \<Rightarrow> error + real list" where
  "stoich_loop el_amt n [] i p_norms = Inr p_norms"
| "stoich_loop el_amt n (p # ps) i p_norms =
     (if p < 0 then Inl (ValueError ''p-norm not defined for p < 0'')
      else if p = 0 then
        stoich_loop el_amt n ps (Suc i) (p_norms[i := real (length el_amt)])
      else
        bind_err (sum_fracs n (nat p) (p_norms ! i) el_amt) (\<lambda>s.
          stoich_loop el_amt n ps (Suc i) (p_norms[i := s powr (1 / real_of_int p)])))"

definition stoich_featurize :: "int list \<Rightarrow> el_amt_dict \<Rightarrow> error + real list" where
  "stoich_featurize p_list el_amt =
     stoich_loop el_amt (sum_list (map snd el_amt)) p_list 0 (replicate (length p_list) 0)"


section \<open>The property provider\<close>

text \<open>
  The element data: the electronegativity that orders a property series, the numeric
  property tables by name, and the list-valued tables by name (the candidate oxidation
  states). An unknown property name has no table.
\<close>

record magpie =
  eneg :: "string \<Rightarrow> real"
  numeric :: "string \<Rightarrow> (string \<Rightarrow> real) option"
  states :: "string \<Rightarrow> (string \<Rightarrow> int list) option"

text \<open>
  Modelled from the spec: \<open>magpie_data.get_data\<close> (module
  \<open>matminer.descriptors.data\<close>) is not among the source files. The property
  series has one entry per atom, \<open>int(amount)\<close> entries for an element as in
  \<open>get_pymatgen_descriptor\<close>, grouped by element, the elements in ascending
  electronegativity (a stable sort of the dictionary's keys); an unknown property name
  is a lookup error.
\<close>

definition series :: "(string \<Rightarrow> real) \<Rightarrow> (string \<Rightarrow> 'v) \<Rightarrow> el_amt_dict \<Rightarrow> 'v list" where
  "series x tbl el_amt =
     concat (map (\<lambda>(el, amt). replicate (nat (py_int amt)) (tbl el))
                 (sort_key (\<lambda>(el, amt). x el) el_amt))"

definition get_data :: "magpie \<Rightarrow> el_amt_dict \<Rightarrow> string \<Rightarrow> error + real list" where
  "get_data m c name =
     (case numeric m name of
        None \<Rightarrow> Inl LookupError
      | Some tbl \<Rightarrow> Inr (series (eneg m) tbl c))"


text \<open>pymatgen's \<open>Composition.num_atoms\<close>: the sum of the amounts.\<close>

definition num_atoms :: "el_amt_dict \<Rightarrow> real" where
  "num_atoms c = sum_list (map snd c)"

section \<open>ElementalAttribute\<close>



text \<open>
  \<open>max(it, key=f)\<close>: the first element of the iteration that attains the largest
  key (a later element replaces the current one only when its key is strictly larger).
\<close>

fun max_key_from :: "('a \<Rightarrow> nat) \<Rightarrow> 'a \<Rightarrow> 'a list \<Rightarrow> 'a" where
  "max_key_from f best [] = best"
| "max_key_from f best (y # ys) =
     (if f best < f y then max_key_from f y ys else max_key_from f best ys)"

definition py_max_key :: "('a \<Rightarrow> nat) \<Rightarrow> 'a list \<Rightarrow> error + 'a" where
  "py_max_key f xs = (case xs of [] \<Rightarrow> Inl (ValueError ''max() arg is an empty sequence'')
                      | y # ys \<Rightarrow> Inr (max_key_from f y ys))"

text \<open>
  \<open>max(set(elem_data), key=elem_data.count)\<close>. The order in which Python iterates
  over \<open>set(elem_data)\<close> is the runtime's; it is the parameter \<open>set_iter\<close>, the
  iteration order as a function of the list the set is built from.
\<close>

definition mode :: "(real list \<Rightarrow> real list) \<Rightarrow> real list \<Rightarrow> error + real" where
  "mode set_iter elem_data = py_max_key (count_list elem_data) (set_iter elem_data)"






section \<open>ValenceOrbitalAttribute\<close>

text \<open>\<open>sum(magpie_data.get_data(comp, name)) / num_atoms\<close>.\<close>

definition avg_of :: "magpie \<Rightarrow> el_amt_dict \<Rightarrow> string \<Rightarrow> error + real" where
  "avg_of m c name =
     bind_err (get_data m c name) (\<lambda>xs. py_div (sum_list xs) (num_atoms c))"

definition valence_featurize :: "magpie \<Rightarrow> el_amt_dict \<Rightarrow> error + real list" where
  "valence_featurize m c =
     bind_err (avg_of m c ''NValance'') (\<lambda>avg_total_valence.
     bind_err (avg_of m c ''NsValence'') (\<lambda>avg_s.
     bind_err (avg_of m c ''NpValence'') (\<lambda>avg_p.
     bind_err (avg_of m c ''NdValence'') (\<lambda>avg_d.
     bind_err (avg_of m c ''NfValence'') (\<lambda>avg_f.
     bind_err (py_div avg_s avg_total_valence) (\<lambda>Fs.
     bind_err (py_div avg_p avg_total_valence) (\<lambda>Fp.
     bind_err (py_div avg_d avg_total_valence) (\<lambda>Fd.
     bind_err (py_div avg_f avg_total_valence) (\<lambda>Ff.
       Inr [Fs, Fp, Fd, Ff])))))))))"


section \<open>IonicAttribute\<close>










section \<open>The formula parser\<close>

text \<open>
  Strings are lists of 8-bit characters; the character classes are the ASCII ones.
\<close>

definition is_alpha :: "char \<Rightarrow> bool" where
  "is_alpha ch = (ch \<in> set ''abcdefghijklmnopqrstuvwxyzABCDEFGHIJKLMNOPQRSTUVWXYZ'')"

definition is_digit :: "char \<Rightarrow> bool" where
  "is_digit ch = (ch \<in> set ''0123456789'')"

definition is_sign :: "char \<Rightarrow> bool" where
  "is_sign ch = (ch = CHR ''+'' \<or> ch = CHR ''-'')"

definition is_space :: "char \<Rightarrow> bool" where
  "is_space ch = (ch \<in> set [CHR '' '', CHR 0x09, CHR 0x0A, CHR 0x0B, CHR 0x0C, CHR 0x0D,
                             CHR 0x1C, CHR 0x1D, CHR 0x1E, CHR 0x1F])"

text \<open>\<open>s.strip()\<close>.\<close>

definition strip :: "string \<Rightarrow> string" where
  "strip s = rev (dropWhile is_space (rev (dropWhile is_space s)))"

text \<open>
  \<open>re.split\<close> on a pattern \<open>[...]+\<close>: the pieces between the maximal runs of
  characters of the class, the empty pieces at both ends included. The flag says
  whether the previous character belonged to a run; \<open>cur\<close> is the current piece,
  reversed.
\<close>

fun split_aux :: "(char \<Rightarrow> bool) \<Rightarrow> bool \<Rightarrow> string \<Rightarrow> string \<Rightarrow> string list" where
  "split_aux P in_run cur [] = [rev cur]"
| "split_aux P in_run cur (ch # rest) =
     (if P ch then
        (if in_run then split_aux P True cur rest
         else rev cur # split_aux P True [] rest)
      else split_aux P False (ch # cur) rest)"

definition re_split_runs :: "(char \<Rightarrow> bool) \<Rightarrow> string \<Rightarrow> string list" where
  "re_split_runs P s = split_aux P False [] s"

text \<open>\<open>s.split(sep, 1)\<close> unpacked into \<open>before, after\<close>.\<close>

fun find_sep :: "string \<Rightarrow> string \<Rightarrow> (string \<times> string) option" where
  "find_sep sep [] = (if sep = [] then Some ([], []) else None)"
| "find_sep sep (ch # rest) =
     (if take (length sep) (ch # rest) = sep then Some ([], drop (length sep) (ch # rest))
      else map_option (\<lambda>(before, after). (ch # before, after)) (find_sep sep rest))"

definition split_pair :: "string \<Rightarrow> string \<Rightarrow> error + (string \<times> string)" where
  "split_pair sep s =
     (if sep = [] then Inl (ValueError ''empty separator'')
      else case find_sep sep s of
             None \<Rightarrow> Inl (ValueError ''not enough values to unpack'')
           | Some ba \<Rightarrow> Inr ba)"

text \<open>
  \<open>int(s)\<close> on a string: surrounding whitespace, one optional sign, decimal digits
  (the digit grouping with underscores of later Python versions is not accepted).
\<close>

definition digit_val :: "char \<Rightarrow> nat" where
  "digit_val ch = length (takeWhile (\<lambda>d. d \<noteq> ch) ''0123456789'')"

definition nat_of_digits :: "string \<Rightarrow> nat" where
  "nat_of_digits ds = fold (\<lambda>ch n. 10 * n + digit_val ch) ds 0"

definition int_of_string :: "string \<Rightarrow> error + int" where
  "int_of_string s =
     (let t = strip s;
          neg = (t \<noteq> [] \<and> hd t = CHR ''-'');
          ds = (if t \<noteq> [] \<and> is_sign (hd t) then tl t else t)
      in if ds \<noteq> [] \<and> list_all is_digit ds
         then Inr (if neg then - int (nat_of_digits ds) else int (nat_of_digits ds))
         else Inl (ValueError ''invalid literal for int()''))"

text \<open>The loop \<open>for na in non_alphabets\<close> on the state \<open>oxidation_states\<close>.\<close>

fun ox_loop :: "string list \<Rightarrow> string list \<Rightarrow> error + string list" where
  "ox_loop [] oxidation_states = Inr oxidation_states"
| "ox_loop (na # rest) oxidation_states =
     (let s = strip na in
      if s \<noteq> [] \<and> (CHR ''+'' \<in> set s \<or> CHR ''-'' \<in> set s) then
        (let digits = re_split_runs is_sign s;
             sign_tmp = re_split_runs is_digit s;
             sign = map strip (filter (\<lambda>x. strip x \<noteq> []) sign_tmp)
         in bind_err (py_get sign (- 1)) (\<lambda>sg.
            bind_err (py_get digits (- 1)) (\<lambda>dg.
              ox_loop rest (oxidation_states @ [sg @ strip dg]))))
      else ox_loop rest oxidation_states)"

text \<open>
  The splits of the formula around each annotation in turn; the first argument is the
  part of \<open>oxidation_states\<close> still to be split off, the second the current
  \<open>after\<close> (the whole formula at the start).
\<close>

fun plain_loop :: "string list \<Rightarrow> string \<Rightarrow> string list \<Rightarrow> error + string list" where
  "plain_loop [] after formula_plain = Inr formula_plain"
| "plain_loop (oxs # rest) after formula_plain =
     bind_err (split_pair oxs after) (\<lambda>(before, after').
       plain_loop rest after' (formula_plain @ [before]))"

text \<open>
  The loop \<open>for i, g in enumerate(formula_plain)\<close> on the dictionary. \<open>Element\<close>
  is pymatgen's: \<open>Element el\<close> is \<open>str(Element(el))\<close>, or the exception raised for
  a string that is no element symbol. The right-hand side \<open>int(oxidation_states[i])\<close>
  is evaluated before the key.
\<close>

fun dict_loop ::
  "(string \<Rightarrow> error + string) \<Rightarrow> (string \<times> string) list \<Rightarrow> (string \<times> int) list
   \<Rightarrow> error + (string \<times> int) list" where
  "dict_loop Element [] oxidation_states_dict = Inr oxidation_states_dict"
| "dict_loop Element ((g, oxs) # rest) oxidation_states_dict =
     (let el = takeWhile (\<lambda>ch. \<not> is_digit ch) (strip g) in
      bind_err (int_of_string oxs) (\<lambda>v.
      bind_err (Element el) (\<lambda>key.
        dict_loop Element rest (AList.update key v oxidation_states_dict))))"

text \<open>
  \<open>get_composition_oxidation_state\<close>. \<open>Composition\<close> is pymatgen's formula parser,
  which may raise.
\<close>

definition get_composition_oxidation_state ::
  "(string \<Rightarrow> error + 'c) \<Rightarrow> (string \<Rightarrow> error + string) \<Rightarrow> string
   \<Rightarrow> error + ('c \<times> (string \<times> int) list)" where
  "get_composition_oxidation_state Composition Element formula =
     (let non_alphabets = re_split_runs is_alpha formula in
      if non_alphabets = [] then bind_err (Composition formula) (\<lambda>cmp. Inr (cmp, []))
      else
        bind_err (ox_loop non_alphabets []) (\<lambda>oxidation_states.
          if oxidation_states = [] then bind_err (Composition formula) (\<lambda>cmp. Inr (cmp, []))
          else
            bind_err (plain_loop oxidation_states formula []) (\<lambda>formula_plain.
            bind_err (dict_loop Element (zip formula_plain oxidation_states) []) (\<lambda>d.
            bind_err (Composition (concat formula_plain)) (\<lambda>cmp. Inr (cmp, d))))))"

section \<open>get\_pymatgen\_descriptor\<close>

text \<open>
  What the code observes of an element attribute \<open>p\<close>: it is \<open>None\<close>; or a number
  (\<open>float(p)\<close> succeeds), with or without a \<open>unit\<close> attribute; or the dictionary
  from oxidation state to ionic radius (\<open>float(p)\<close> fails).
\<close>

datatype attr_value = NoneValue | FloatValue real bool | DictValue "(int \<times> real) list"

text \<open>
  The \<open>composition\<close> argument: a Composition object, given by its
  \<open>get_el_amt_dict()\<close> and the oxidation states of its species (empty for plain
  elements), or a formula string.
\<close>

datatype composition_arg =
    CompositionObj el_amt_dict "(string \<times> int) list"
  | Formula string

text \<open>Lines 249 to 272: \<open>property_value\<close> for one element symbol.\<close>

definition property_value_of ::
  "(string \<Rightarrow> string \<Rightarrow> attr_value option) \<Rightarrow> (string \<times> int) list \<Rightarrow> string \<Rightarrow> string
   \<Rightarrow> error + real option" where
  "property_value_of getattr oxidation_states el_sym property_name =
     (case getattr el_sym property_name of
        None \<Rightarrow> Inl AttributeError
      | Some NoneValue \<Rightarrow> Inr None
      | Some p \<Rightarrow>
          bind_err
            (if property_name \<in> set [''ionic_radii''] then
               (if oxidation_states \<noteq> [] then
                  (case map_of oxidation_states el_sym of
                     None \<Rightarrow> Inl KeyError
                   | Some st \<Rightarrow>
                       (case p of
                          DictValue radii \<Rightarrow>
                            (case map_of radii st of None \<Rightarrow> Inl KeyError | Some r \<Rightarrow> Inr r)
                        | _ \<Rightarrow> Inl TypeError))
                else Inl (ValueError ''oxidation state not given for ionic_radii; It does not yield a unique number per Element''))
             else (case p of FloatValue v u \<Rightarrow> Inr v | _ \<Rightarrow> Inl TypeError))
            (\<lambda>property_value.
               if property_name \<notin> set [''X'', ''Z'', ''group'', ''row'', ''number'', ''mendeleev_no'', ''ionic_radii'']
                  \<and> (case p of FloatValue v u \<Rightarrow> \<not> u | _ \<Rightarrow> True)
               then Inl AttributeError
               else Inr (Some property_value)))"

text \<open>
  The loop \<open>for el_sym in symbols\<close> on the state \<open>eldata\<close>; the inner loop appends
  \<open>property_value\<close> once for each \<open>i\<close> in \<open>range(int(el_amt_dict[el_sym]))\<close>.
\<close>

fun eldata_loop ::
  "(string \<Rightarrow> string \<Rightarrow> attr_value option) \<Rightarrow> (string \<times> int) list \<Rightarrow> el_amt_dict \<Rightarrow> string
   \<Rightarrow> string list \<Rightarrow> real option list \<Rightarrow> error + real option list" where
  "eldata_loop getattr oxidation_states el_amt_dict property_name [] eldata = Inr eldata"
| "eldata_loop getattr oxidation_states el_amt_dict property_name (el_sym # rest) eldata =
     bind_err (property_value_of getattr oxidation_states el_sym property_name) (\<lambda>property_value.
       case map_of el_amt_dict el_sym of
         None \<Rightarrow> Inl KeyError
       | Some amt \<Rightarrow>
           eldata_loop getattr oxidation_states el_amt_dict property_name rest
             (eldata @ replicate (nat (py_int amt)) property_value))"

text \<open>
  Lines 233 to 242: the element-amount dictionary and the oxidation states of the
  \<open>composition\<close> argument. \<open>composition.elements[0]\<close> raises on a Composition
  object with no element; a string goes through the formula parser.
\<close>

definition composition_input ::
  "(string \<Rightarrow> error + el_amt_dict) \<Rightarrow> (string \<Rightarrow> error + string) \<Rightarrow> composition_arg
   \<Rightarrow> error + (el_amt_dict \<times> (string \<times> int) list)" where
  "composition_input Composition Element composition =
     (case composition of
        CompositionObj el_amt oxi \<Rightarrow>
          (if el_amt = [] then Inl IndexError else Inr (el_amt, oxi))
      | Formula formula \<Rightarrow> get_composition_oxidation_state Composition Element formula)"

text \<open>
  \<open>get_pymatgen_descriptor\<close>. \<open>X\<close> is the electronegativity \<open>get_el_sp(sym).X\<close>
  by which \<open>sorted\<close> orders the symbols.
\<close>

definition get_pymatgen_descriptor ::
  "(string \<Rightarrow> error + el_amt_dict) \<Rightarrow> (string \<Rightarrow> error + string) \<Rightarrow> (string \<Rightarrow> real)
   \<Rightarrow> (string \<Rightarrow> string \<Rightarrow> attr_value option) \<Rightarrow> composition_arg \<Rightarrow> string
   \<Rightarrow> error + real option list" where
  "get_pymatgen_descriptor Composition Element X getattr composition property_name =
     bind_err (composition_input Composition Element composition)
       (\<lambda>(el_amt_dict, oxidation_states).
          let symbols = sort_key X (map fst el_amt_dict)
          in eldata_loop getattr oxidation_states el_amt_dict property_name symbols [])"

section \<open>Specification-level notions\<close>

text \<open>The invariant of a composition: every amount is positive.\<close>

definition valid_amounts :: "el_amt_dict \<Rightarrow> bool" where
  "valid_amounts el_amt = (\<forall>(el, amt) \<in> set el_amt. 0 < amt)"

text \<open>
  The generalized mean of the specification: the number of elements for \<open>p = 0\<close>,
  and \<open>(\<Sum> fraction ^ p) ^ (1 / p)\<close> for \<open>p > 0\<close>.
\<close>

definition p_norm :: "el_amt_dict \<Rightarrow> int \<Rightarrow> real" where
  "p_norm el_amt p =
     (if p = 0 then real (length el_amt)
      else (\<Sum>(el, amt)\<leftarrow>el_amt. (amt / sum_list (map snd el_amt)) ^ nat p)
             powr (1 / real_of_int p))"

text \<open>
  Element data for the examples: iron and oxygen, with the values of the Magpie
  tables.
\<close>

definition table_of :: "(string \<times> 'v) list \<Rightarrow> 'v \<Rightarrow> string \<Rightarrow> 'v" where
  "table_of al dflt el = (case map_of al el of None \<Rightarrow> dflt | Some v \<Rightarrow> v)"

definition fe_o_data :: magpie where
  "fe_o_data =
     \<lparr> eneg = table_of [(''Fe'', 183 / 100), (''O'', 344 / 100)] 0,
       numeric = map_of
         [(''Electronegativity'', table_of [(''Fe'', 183 / 100), (''O'', 344 / 100)] 0),
          (''NValance'', table_of [(''Fe'', 8), (''O'', 6)] 0),
          (''NsValence'', table_of [(''Fe'', 2), (''O'', 2)] 0),
          (''NpValence'', table_of [(''Fe'', 0), (''O'', 4)] 0),
          (''NdValence'', table_of [(''Fe'', 6), (''O'', 0)] 0),
          (''NfValence'', table_of [(''Fe'', 0), (''O'', 0)] 0)],
       states = map_of [(''OxidationStates'', table_of [(''Fe'', [2, 3]), (''O'', [- 2])] [])] \<rparr>"

text \<open>
  The element attributes for the examples: the electronegativity \<open>X\<close> of iron and
  oxygen, a plain number.
\<close>

definition fe_o_getattr :: "string \<Rightarrow> string \<Rightarrow> attr_value option" where
  "fe_o_getattr el property_name =
     (if property_name = ''X'' then
        Some (FloatValue (table_of [(''Fe'', 183 / 100), (''O'', 86 / 25)] 0 el) False)
      else None)"

text \<open>An \<open>Element\<close> for the examples, knowing iron and oxygen only.\<close>

definition fe_o_Element :: "string \<Rightarrow> error + string" where
  "fe_o_Element el =
     (if el = ''Fe'' \<or> el = ''O'' then Inr el else Inl (ValueError ''not an element symbol''))"

text \<open>A formula parser for the examples, knowing the formula of hematite only.\<close>

definition fe_o_Composition :: "string \<Rightarrow> error + el_amt_dict" where
  "fe_o_Composition formula =
     (if formula = ''Fe2O3'' then Inr [(''Fe'', 2), (''O'', 3)]
      else Inl (ValueError ''formula not parsed''))"

(* DEFS-END *)

section \<open>StoichiometricAttribute: the loop computes the norms or raises\<close>

lemma sum_fracs_ok:
  "n \<noteq> 0 \<or> xs = [] \<Longrightarrow>
   sum_fracs n p acc xs = Inr (acc + (\<Sum>(el, amt)\<leftarrow>xs. (amt / n) ^ p))"
  by (induction xs arbitrary: acc) (auto simp: py_div_def)

lemma valid_amounts_sum: "valid_amounts xs \<Longrightarrow> xs \<noteq> [] \<Longrightarrow> 0 < sum_list (map snd xs)"
proof (induction xs)
  case Nil then show ?case by simp
next
  case (Cons x xs)
  then show ?case
    by (cases "xs = []") (auto simp: valid_amounts_def split: prod.splits)
qed

lemma valid_amounts_total: "valid_amounts xs \<Longrightarrow> sum_list (map snd xs) \<noteq> 0 \<or> xs = []"
  using valid_amounts_sum [of xs] by fastforce

lemma stoich_loop_neg:
  "n \<noteq> 0 \<or> el_amt = [] \<Longrightarrow> \<exists>p \<in> set ps. p < 0 \<Longrightarrow>
   stoich_loop el_amt n ps i p_norms = Inl (ValueError ''p-norm not defined for p < 0'')"
proof (induction ps arbitrary: i p_norms)
  case Nil then show ?case by simp
next
  case (Cons p ps)
  show ?case
  proof (cases "p < 0")
    case True then show ?thesis by simp
  next
    case False
    with Cons.prems have ex: "\<exists>p \<in> set ps. p < 0" by auto
    show ?thesis using False Cons.IH [OF Cons.prems(1) ex] sum_fracs_ok [OF Cons.prems(1)]
      by simp
  qed
qed

lemma stoich_loop_ok:
  "n \<noteq> 0 \<or> el_amt = [] \<Longrightarrow> \<forall>p \<in> set ps. 0 \<le> p \<Longrightarrow> n = sum_list (map snd el_amt) \<Longrightarrow>
   length p_norms = i + length ps \<Longrightarrow>
   \<forall>k. i \<le> k \<longrightarrow> k < length p_norms \<longrightarrow> p_norms ! k = 0 \<Longrightarrow>
   stoich_loop el_amt n ps i p_norms = Inr (take i p_norms @ map (p_norm el_amt) ps)"
proof (induction ps arbitrary: i p_norms)
  case Nil then show ?case by simp
next
  case (Cons p ps)
  have zero: "p_norms ! i = 0" using Cons.prems by simp
  have ilt: "i < length p_norms" using Cons.prems by simp
  have tk: "\<And>v. take (Suc i) (p_norms[i := v]) = take i p_norms @ [v]"
    using ilt by (simp add: take_Suc_conv_app_nth)
  have rest: "\<And>v. stoich_loop el_amt n ps (Suc i) (p_norms[i := v]) =
      Inr (take (Suc i) (p_norms[i := v]) @ map (p_norm el_amt) ps)"
    using Cons.prems by (intro Cons.IH) auto
  show ?case
  proof (cases "p = 0")
    case True
    then show ?thesis using rest tk by (simp add: p_norm_def)
  next
    case False
    with Cons.prems have pos: "0 < p" by auto
    show ?thesis using pos rest tk zero sum_fracs_ok [OF Cons.prems(1)] Cons.prems(3)
      by (simp add: p_norm_def)
  qed
qed

lemma stoich_featurize_eq:
  assumes "valid_amounts el_amt"
  shows "stoich_featurize p_list el_amt =
     (if \<exists>p \<in> set p_list. p < 0 then Inl (ValueError ''p-norm not defined for p < 0'')
      else Inr (map (p_norm el_amt) p_list))"
proof -
  have n: "sum_list (map snd el_amt) \<noteq> 0 \<or> el_amt = []"
    using assms by (rule valid_amounts_total)
  show ?thesis
  proof (cases "\<exists>p \<in> set p_list. p < 0")
    case True
    then show ?thesis unfolding stoich_featurize_def using stoich_loop_neg [OF n True] by simp
  next
    case False
    then have nn: "\<forall>p \<in> set p_list. 0 \<le> p" by auto
    have "stoich_loop el_amt (sum_list (map snd el_amt)) p_list 0 (replicate (length p_list) 0)
        = Inr (take 0 (replicate (length p_list) 0) @ map (p_norm el_amt) p_list)"
      by (rule stoich_loop_ok [OF n nn]) auto
    then show ?thesis using False unfolding stoich_featurize_def by simp
  qed
qed

text \<open>
  Claim C6. When \<open>p_list\<close> contains a negative exponent,
  \<open>StoichiometricAttribute.featurize\<close> raises the ValueError
  \<open>p-norm not defined for p < 0\<close> on every composition (amounts positive), and so
  returns no vector at all.
\<close>

theorem stoich_negative_exponent_raises:
  assumes "valid_amounts el_amt" and "\<exists>p \<in> set p_list. p < 0"
  shows "stoich_featurize p_list el_amt = Inl (ValueError ''p-norm not defined for p < 0'')
         \<and> (\<forall>v. stoich_featurize p_list el_amt \<noteq> Inr v)"
  using assms by (simp add: stoich_featurize_eq)

theorem stoich_negative_exponent_raises_witness:
  "valid_amounts [(''Fe'', 2), (''O'', 3)] \<and> (\<exists>p \<in> set [2, - 1 :: int]. p < 0)
   \<and> stoich_featurize [2, - 1] [(''Fe'', 2), (''O'', 3)]
       = Inl (ValueError ''p-norm not defined for p < 0'')"
proof -
  have v: "valid_amounts [(''Fe'', 2), (''O'', 3)]" by (simp add: valid_amounts_def)
  have e: "\<exists>p \<in> set [2, - 1 :: int]. p < 0" by simp
  show ?thesis using v e stoich_negative_exponent_raises [OF v e] by simp
qed

text \<open>
  Claim C8. With no negative exponent in \<open>p_list\<close>, the featurizer returns one entry
  per exponent, and the entry of every exponent 0 is the number of distinct elements
  of the composition; \<open>StoichiometricAttribute(p_list=[0])\<close> on Fe2O3 returns
  \<open>[2]\<close>.
\<close>

theorem stoich_zero_norm_counts_elements:
  assumes "valid_amounts el_amt" and "distinct (map fst el_amt)"
    and "\<forall>p \<in> set p_list. 0 \<le> p"
  shows "(\<exists>v. stoich_featurize p_list el_amt = Inr v \<and> length v = length p_list \<and>
            (\<forall>i < length p_list. p_list ! i = 0 \<longrightarrow> v ! i = real (card (fst ` set el_amt))))
         \<and> stoich_featurize [0] [(''Fe'', 2), (''O'', 3)] = Inr [2]"
proof -
  have neg: "\<not> (\<exists>p \<in> set p_list. p < 0)" using assms(3) by auto
  have card: "card (fst ` set el_amt) = length el_amt"
    using assms(2) distinct_card [of "map fst el_amt"] by simp
  have eq: "stoich_featurize p_list el_amt = Inr (map (p_norm el_amt) p_list)"
    using neg by (simp add: stoich_featurize_eq [OF assms(1)])
  have zero: "\<forall>i < length p_list. p_list ! i = 0 \<longrightarrow>
      map (p_norm el_amt) p_list ! i = real (card (fst ` set el_amt))"
    by (simp add: p_norm_def card)
  have fe: "stoich_featurize [0] [(''Fe'', 2), (''O'', 3)] = Inr [2]"
    by (simp add: stoich_featurize_def)
  show ?thesis using eq zero fe by simp
qed

theorem stoich_zero_norm_counts_elements_witness:
  "valid_amounts [(''Fe'', 2), (''O'', 3)] \<and> distinct (map fst [(''Fe'', 2 :: real), (''O'', 3)])
   \<and> list_all (\<lambda>p. 0 \<le> p) [2, 0 :: int]
   \<and> (\<exists>v. stoich_featurize [2, 0] [(''Fe'', 2), (''O'', 3)] = Inr v \<and> v ! 1 = 2)"
proof -
  have v: "valid_amounts [(''Fe'', 2), (''O'', 3)]" by (simp add: valid_amounts_def)
  have d: "distinct (map fst [(''Fe'', 2 :: real), (''O'', 3)])" by simp
  have p: "\<forall>p \<in> set [2, 0 :: int]. 0 \<le> p" by simp
  have c: "card (fst ` set [(''Fe'', 2 :: real), (''O'', 3)]) = 2" by simp
  show ?thesis using v d p c stoich_zero_norm_counts_elements [OF v d p] by auto
qed

section \<open>ValenceOrbitalAttribute\<close>

lemma avg_of_eq:
  "numeric m name = Some t \<Longrightarrow> num_atoms c \<noteq> 0 \<Longrightarrow>
   avg_of m c name = Inr (sum_list (series (eneg m) t c) / num_atoms c)"
  by (simp add: avg_of_def get_data_def py_div_def)

lemma avg_of_zero:
  "numeric m name = Some t \<Longrightarrow> num_atoms c = 0 \<Longrightarrow> avg_of m c name = Inl ZeroDivisionError"
  by (simp add: avg_of_def get_data_def py_div_def)

text \<open>
  Claim C7. With the five valence tables known to the provider: when the per-atom
  average of the NValance series (its sum divided by the number of atoms) is zero,
  \<open>ValenceOrbitalAttribute.featurize\<close> raises ZeroDivisionError and returns no
  vector; otherwise it returns the four quotients \<open>avg_s/avg_total\<close>,
  \<open>avg_p/avg_total\<close>, \<open>avg_d/avg_total\<close>, \<open>avg_f/avg_total\<close> in this order.
  (A composition with no atoms raises the same error at the first division; the
  quotient by zero is \<open>0\<close> in HOL, so the first case covers it.)
\<close>

theorem valence_featurize_zero_total:
  assumes "numeric m ''NValance'' = Some tv" and "numeric m ''NsValence'' = Some ts"
    and "numeric m ''NpValence'' = Some tp" and "numeric m ''NdValence'' = Some td"
    and "numeric m ''NfValence'' = Some tf"
  shows "valence_featurize m c =
     (let avg = (\<lambda>t. sum_list (series (eneg m) t c) / num_atoms c) in
      if avg tv = 0 then Inl ZeroDivisionError
      else Inr [avg ts / avg tv, avg tp / avg tv, avg td / avg tv, avg tf / avg tv])"
proof (cases "num_atoms c = 0")
  case True
  then show ?thesis
    unfolding valence_featurize_def by (simp add: avg_of_zero [OF assms(1) True])
next
  case False
  show ?thesis
    unfolding valence_featurize_def
    by (simp add: avg_of_eq [OF assms(1) False] avg_of_eq [OF assms(2) False]
        avg_of_eq [OF assms(3) False] avg_of_eq [OF assms(4) False]
        avg_of_eq [OF assms(5) False] py_div_def Let_def)
qed

lemma fe_o_numeric:
  "numeric fe_o_data ''NValance'' = Some (table_of [(''Fe'', 8), (''O'', 6)] 0)"
  "numeric fe_o_data ''NsValence'' = Some (table_of [(''Fe'', 2), (''O'', 2)] 0)"
  "numeric fe_o_data ''NpValence'' = Some (table_of [(''Fe'', 0), (''O'', 4)] 0)"
  "numeric fe_o_data ''NdValence'' = Some (table_of [(''Fe'', 6), (''O'', 0)] 0)"
  "numeric fe_o_data ''NfValence'' = Some (table_of [(''Fe'', 0), (''O'', 0)] 0)"
  "numeric fe_o_data ''Electronegativity'' = Some (table_of [(''Fe'', 183 / 100), (''O'', 344 / 100)] 0)"
  "eneg fe_o_data = table_of [(''Fe'', 183 / 100), (''O'', 344 / 100)] 0"
  "states fe_o_data ''OxidationStates'' = Some (table_of [(''Fe'', [2, 3]), (''O'', [- 2])] [])"
  by (simp_all add: fe_o_data_def)

lemma py_int_simps:
  "py_int 2 = 2" "py_int 3 = 3" "py_int 1 = 1" "py_int (1 / 2) = 0" "py_int (27 / 10) = 2"
  "py_int (1 / 4) = 0" "py_int (5 / 4) = 1"
  by (simp_all add: py_int_def)

lemma series_fe2o3:
  "series (eneg fe_o_data) t [(''Fe'', 2), (''O'', 3)]
     = [t ''Fe'', t ''Fe'', t ''O'', t ''O'', t ''O'']"
  by (simp add: series_def fe_o_data_def table_of_def py_int_simps numeral_2_eq_2 numeral_3_eq_3)

lemma series_fe_half:
  "series x t [(''Fe'', 1 / 2)] = []"
  by (simp add: series_def py_int_simps)

theorem valence_featurize_zero_total_witness:
  "valence_featurize fe_o_data [(''Fe'', 2), (''O'', 3)] = Inr [10 / 34, 12 / 34, 12 / 34, 0]
   \<and> valence_featurize fe_o_data [(''Fe'', 1 / 2)] = Inl ZeroDivisionError"
proof -
  have a: "valence_featurize fe_o_data [(''Fe'', 2), (''O'', 3)] = Inr [10 / 34, 12 / 34, 12 / 34, 0]"
    using valence_featurize_zero_total [OF fe_o_numeric(1-5), of "[(''Fe'', 2), (''O'', 3)]"]
    by (simp add: series_fe2o3 table_of_def num_atoms_def)
  have b: "valence_featurize fe_o_data [(''Fe'', 1 / 2)] = Inl ZeroDivisionError"
    using valence_featurize_zero_total [OF fe_o_numeric(1-5), of "[(''Fe'', 1 / 2)]"]
    by (simp add: series_fe_half)
  show ?thesis using a b by simp
qed

section \<open>ElementalAttribute: the mode and the blocks of six\<close>














lemma mode_follows_iteration_order:
  "mode (\<lambda>xs. [1, 2]) [1, 1, 2, 2] = Inr 1 \<and> mode (\<lambda>xs. [2, 1]) [1, 1, 2, 2] = Inr 2"
  by (simp add: mode_def py_max_key_def)


section \<open>Labels and values\<close>














section \<open>get\_pymatgen\_descriptor: the series\<close>


lemma eldata_loop_ok:
  assumes "\<forall>s \<in> set syms. property_value_of getattr oxs s prop = Inr (pv s)"
    and "\<forall>s \<in> set syms. map_of el_amt s = Some (amt s)"
  shows "eldata_loop getattr oxs el_amt prop syms acc
     = Inr (acc @ concat (map (\<lambda>s. replicate (nat (py_int (amt s))) (pv s)) syms))"
  using assms by (induction syms arbitrary: acc) auto

lemma map_insort_key_comp:
  "map f (insort_key (\<lambda>x. g (f x)) x xs) = insort_key g (f x) (map f xs)"
  by (induction xs) auto

lemma map_sort_key_comp: "map f (sort_key (\<lambda>x. g (f x)) xs) = sort_key g (map f xs)"
  by (induction xs) (auto simp: map_insort_key_comp)

lemma sort_key_fst:
  "sort_key X (map fst el_amt) = map fst (sort_key (\<lambda>(s, a). X s) el_amt)"
proof -
  have h: "(\<lambda>(s, a). X s) = (\<lambda>x. X (fst x))" by (auto simp: fun_eq_iff)
  show ?thesis unfolding h by (rule map_sort_key_comp [symmetric])
qed



lemma descriptor_eq:
  assumes inp: "composition_input Composition Element composition = Inr (el_amt, oxi)"
    and dist: "distinct (map fst el_amt)"
    and vals: "\<forall>s \<in> fst ` set el_amt. property_value_of getattr oxi s property_name = Inr (pv s)"
  shows "get_pymatgen_descriptor Composition Element X getattr composition property_name
     = Inr (concat (map (\<lambda>(s, a). replicate (nat (py_int a)) (pv s))
                        (sort_key (\<lambda>(s, a). X s) el_amt)))"
proof -
  let ?groups = "sort_key (\<lambda>(s, a). X s) el_amt"
  let ?amt = "\<lambda>s. the (map_of el_amt s)"
  have set: "set ?groups = set el_amt" by simp
  have v: "\<forall>s \<in> set (sort_key X (map fst el_amt)). property_value_of getattr oxi s property_name = Inr (pv s)"
    using vals by simp
  have a: "\<forall>s \<in> set (sort_key X (map fst el_amt)). map_of el_amt s = Some (?amt s)"
    using dist by (auto simp: map_of_eq_None_iff [symmetric] simp del: map_of_eq_None_iff)
  have lookup: "\<And>s b. (s, b) \<in> set el_amt \<Longrightarrow> ?amt s = b"
    using dist by simp
  have "map (\<lambda>x. replicate (nat (py_int (?amt (fst x)))) (pv (fst x))) ?groups
      = map (\<lambda>(s, a). replicate (nat (py_int a)) (pv s)) ?groups"
    by (rule map_cong) (auto simp: lookup)
  then have m: "map (\<lambda>s. replicate (nat (py_int (?amt s))) (pv s)) (map fst ?groups)
      = map (\<lambda>(s, a). replicate (nat (py_int a)) (pv s)) ?groups"
    by (simp add: comp_def)
  have "concat (map (\<lambda>s. replicate (nat (py_int (?amt s))) (pv s)) (sort_key X (map fst el_amt)))
      = concat (map (\<lambda>(s, a). replicate (nat (py_int a)) (pv s)) ?groups)"
    unfolding sort_key_fst using m by (rule arg_cong)
  then show ?thesis
    using eldata_loop_ok [OF v a, of "[]"] inp by (simp add: get_pymatgen_descriptor_def)
qed

lemma property_value_of_float:
  assumes "getattr s property_name = Some (FloatValue v u)"
    and "property_name \<noteq> ''ionic_radii''"
    and "u \<or> property_name \<in> set [''X'', ''Z'', ''group'', ''row'', ''number'', ''mendeleev_no'']"
  shows "property_value_of getattr oxi s property_name = Inr (Some v)"
  using assms by (auto simp: property_value_of_def)

lemma py_int_trunc:
  "(0 \<le> a \<longrightarrow> py_int a = \<lfloor>a\<rfloor>) \<and> (a < 0 \<longrightarrow> py_int a = \<lceil>a\<rceil>) \<and> (\<bar>a\<bar> < 1 \<longrightarrow> py_int a = 0)
   \<and> \<bar>real_of_int (py_int a)\<bar> \<le> \<bar>a\<bar>"
proof -
  have "\<bar>a\<bar> < 1 \<Longrightarrow> 0 \<le> a \<Longrightarrow> \<lfloor>a\<rfloor> = 0" by (simp add: floor_eq_iff)
  moreover have "\<bar>a\<bar> < 1 \<Longrightarrow> a < 0 \<Longrightarrow> \<lceil>a\<rceil> = 0" by (simp add: ceiling_eq_iff)
  moreover have "0 \<le> a \<Longrightarrow> \<bar>real_of_int \<lfloor>a\<rfloor>\<bar> \<le> \<bar>a\<bar>" by simp
  moreover have "a < 0 \<Longrightarrow> \<bar>real_of_int \<lceil>a\<rceil>\<bar> \<le> \<bar>a\<bar>"
  proof -
    assume n: "a < 0"
    then have "\<lceil>a\<rceil> \<le> 0" by (simp add: ceiling_le_iff)
    then show ?thesis using n le_of_int_ceiling [of a] by linarith
  qed
  ultimately show ?thesis by (auto simp: py_int_def)
qed



lemma fe_o_getattr_X:
  "property_value_of fe_o_getattr oxi s ''X''
     = Inr (Some (table_of [(''Fe'', 183 / 100), (''O'', 86 / 25)] 0 s))"
  by (rule property_value_of_float [where u = False]) (simp_all add: fe_o_getattr_def)



text \<open>
  Claim C10. In \<open>get_pymatgen_descriptor\<close> the block of entries of an element with
  amount \<open>a\<close> has exactly \<open>int(a)\<close> entries, \<open>int\<close> truncating toward zero: an
  amount below 1 gives no entry, an amount of 0.5 none and an amount of 2.7 two.
\<close>

theorem pymatgen_descriptor_int_truncation:
  assumes "composition_input Composition Element composition = Inr (el_amt, oxi)"
    and "distinct (map fst el_amt)"
    and "\<forall>s \<in> fst ` set el_amt. property_value_of getattr oxi s property_name = Inr (pv s)"
  shows "\<exists>blocks.
       get_pymatgen_descriptor Composition Element X getattr composition property_name
         = Inr (concat blocks)
     \<and> length blocks = length el_amt
     \<and> (\<forall>i < length el_amt.
           blocks ! i = replicate (nat (py_int (snd (sort_key (\<lambda>(s, a). X s) el_amt ! i))))
                          (pv (fst (sort_key (\<lambda>(s, a). X s) el_amt ! i)))
         \<and> (0 \<le> snd (sort_key (\<lambda>(s, a). X s) el_amt ! i) \<longrightarrow>
               int (length (blocks ! i)) = \<lfloor>snd (sort_key (\<lambda>(s, a). X s) el_amt ! i)\<rfloor>)
         \<and> (snd (sort_key (\<lambda>(s, a). X s) el_amt ! i) < 1 \<longrightarrow> blocks ! i = []))
     \<and> py_int (1 / 2) = 0 \<and> py_int (27 / 10) = 2 \<and> py_int (- 27 / 10) = - 2"
proof -
  let ?groups = "sort_key (\<lambda>(s, a). X s) el_amt"
  let ?blocks = "map (\<lambda>(s, a). replicate (nat (py_int a)) (pv s)) ?groups"
  have e: "get_pymatgen_descriptor Composition Element X getattr composition property_name
      = Inr (concat ?blocks)"
    using assms by (rule descriptor_eq)
  have len: "length ?blocks = length el_amt" by simp
  have small: "\<And>a :: real. a < 1 \<Longrightarrow> nat (py_int a) = 0"
  proof -
    fix a :: real assume a: "a < 1"
    show "nat (py_int a) = 0"
    proof (cases "0 \<le> a")
      case True
      then have "\<lfloor>a\<rfloor> = 0" using a by (simp add: floor_eq_iff)
      then show ?thesis using True by (simp add: py_int_def)
    next
      case False
      then have "\<lceil>a\<rceil> \<le> 0" by (simp add: ceiling_le_iff)
      then show ?thesis using False by (simp add: py_int_def)
    qed
  qed
  have pos: "\<forall>i < length el_amt.
           ?blocks ! i = replicate (nat (py_int (snd (?groups ! i)))) (pv (fst (?groups ! i)))
         \<and> (0 \<le> snd (?groups ! i) \<longrightarrow> int (length (?blocks ! i)) = \<lfloor>snd (?groups ! i)\<rfloor>)
         \<and> (snd (?groups ! i) < 1 \<longrightarrow> ?blocks ! i = [])"
  proof (intro allI impI)
    fix i assume i: "i < length el_amt"
    have b: "?blocks ! i = replicate (nat (py_int (snd (?groups ! i)))) (pv (fst (?groups ! i)))"
      using i by (simp add: case_prod_beta)
    have f: "0 \<le> snd (?groups ! i) \<longrightarrow> int (length (?blocks ! i)) = \<lfloor>snd (?groups ! i)\<rfloor>"
      unfolding b by (simp add: py_int_def)
    have z: "snd (?groups ! i) < 1 \<longrightarrow> ?blocks ! i = []"
      unfolding b using small by simp
    show "?blocks ! i = replicate (nat (py_int (snd (?groups ! i)))) (pv (fst (?groups ! i)))
         \<and> (0 \<le> snd (?groups ! i) \<longrightarrow> int (length (?blocks ! i)) = \<lfloor>snd (?groups ! i)\<rfloor>)
         \<and> (snd (?groups ! i) < 1 \<longrightarrow> ?blocks ! i = [])"
      using b f z by blast
  qed
  have c: "py_int (1 / 2) = 0 \<and> py_int (27 / 10) = 2 \<and> py_int (- 27 / 10) = - 2"
    by (simp add: py_int_def)
  show ?thesis using e len pos c by blast
qed

lemma list_of_length_two: "length xs = 2 \<Longrightarrow> xs = [xs ! 0, xs ! 1]"
  by (auto simp: length_Suc_conv numeral_2_eq_2)

theorem pymatgen_descriptor_int_truncation_witness:
  "get_pymatgen_descriptor fe_o_Composition fe_o_Element (table_of [(''Fe'', 183 / 100), (''O'', 86 / 25)] 0)
      fe_o_getattr (CompositionObj [(''Fe'', 1 / 2), (''O'', 27 / 10)] []) ''X''
     = Inr [Some (86 / 25), Some (86 / 25)]"
proof -
  let ?X = "table_of [(''Fe'', 183 / 100 :: real), (''O'', 86 / 25)] 0"
  let ?c = "[(''Fe'', 1 / 2 :: real), (''O'', 27 / 10)]"
  have i: "composition_input fe_o_Composition fe_o_Element (CompositionObj ?c []) = Inr (?c, [])"
    by (simp add: composition_input_def)
  have d: "distinct (map fst ?c)" by simp
  have v: "\<forall>s \<in> fst ` set ?c. property_value_of fe_o_getattr [] s ''X'' = Inr (Some (?X s))"
    by (simp add: fe_o_getattr_X)
  have g: "sort_key (\<lambda>(s, a). ?X s) ?c = ?c"
    by (simp add: table_of_def)
  obtain blocks where e:
      "get_pymatgen_descriptor fe_o_Composition fe_o_Element ?X fe_o_getattr (CompositionObj ?c []) ''X''
         = Inr (concat blocks)"
    and len: "length blocks = length ?c"
    and pos: "\<forall>i < length ?c.
           blocks ! i = replicate (nat (py_int (snd (?c ! i)))) (Some (?X (fst (?c ! i))))
         \<and> (0 \<le> snd (?c ! i) \<longrightarrow> int (length (blocks ! i)) = \<lfloor>snd (?c ! i)\<rfloor>)
         \<and> (snd (?c ! i) < 1 \<longrightarrow> blocks ! i = [])"
    using pymatgen_descriptor_int_truncation [OF i d v, of ?X] unfolding g
    by - (erule exE, elim conjE, rule that, assumption+)
  have b0: "blocks ! 0 = []" using pos [rule_format, of 0] by (simp add: py_int_simps)
  have b1: "blocks ! 1 = [Some (86 / 25), Some (86 / 25)]"
    using pos [rule_format, of 1] by (simp add: table_of_def py_int_simps numeral_2_eq_2)
  have "length blocks = 2" using len by simp
  then have "blocks = [blocks ! 0, blocks ! 1]" by (rule list_of_length_two)
  then have "concat blocks = [Some (86 / 25), Some (86 / 25)]"
    using b0 b1 by (metis append_Nil append_Nil2 concat.simps(1) concat.simps(2))
  then show ?thesis using e by simp
qed

section \<open>The formula parser\<close>


lemma split_fe: "re_split_runs is_alpha ''Fe2+3O3-2'' = ['''', ''2+3'', ''3-2'']"
  by (simp add: re_split_runs_def is_alpha_def)

lemma strip_simps:
  "strip ''2+3'' = ''2+3''" "strip ''3-2'' = ''3-2''" "strip '''' = ''''"
  "strip ''+'' = ''+''" "strip ''-'' = ''-''" "strip ''2'' = ''2''" "strip ''3'' = ''3''"
  "strip ''Fe2'' = ''Fe2''" "strip ''O3'' = ''O3''" "strip ''+3'' = ''+3''" "strip ''-2'' = ''-2''"
  by (simp_all add: strip_def is_space_def)

lemma ox_fe: "ox_loop ['''', ''2+3'', ''3-2''] [] = Inr [''+3'', ''-2'']"
  by (simp add: strip_simps re_split_runs_def is_sign_def is_digit_def py_get_def)

lemma plain_fe: "plain_loop [''+3'', ''-2''] ''Fe2+3O3-2'' [] = Inr [''Fe2'', ''O3'']"
  by (simp add: split_pair_def)

lemma int_fe: "int_of_string ''+3'' = Inr 3" "int_of_string ''-2'' = Inr (- 2)"
  by (simp_all add: int_of_string_def strip_simps is_sign_def is_digit_def nat_of_digits_def
      digit_val_def)

lemma dict_fe:
  assumes "Element ''Fe'' = Inr ''Fe''" and "Element ''O'' = Inr ''O''"
  shows "dict_loop Element [(''Fe2'', ''+3''), (''O3'', ''-2'')] [] = Inr [(''Fe'', 3), (''O'', - 2)]"
  using assms by (simp add: strip_simps is_digit_def int_fe)

lemma fe2o3_parse:
  assumes "Element ''Fe'' = Inr ''Fe''" and "Element ''O'' = Inr ''O''"
  shows "get_composition_oxidation_state Composition Element ''Fe2+3O3-2''
     = bind_err (Composition ''Fe2O3'') (\<lambda>cmp. Inr (cmp, [(''Fe'', 3), (''O'', - 2)]))"
  by (simp add: get_composition_oxidation_state_def split_fe ox_fe plain_fe dict_fe [OF assms]
      del: ox_loop.simps plain_loop.simps dict_loop.simps)

lemma split_aux_chars:
  "piece \<in> set (split_aux P b cur s) \<Longrightarrow> x \<in> set piece \<Longrightarrow> x \<in> set cur \<union> set s"
proof (induction s arbitrary: b cur)
  case Nil
  then show ?case by simp
next
  case (Cons ch rest)
  show ?case
  proof (cases "P ch")
    case False
    then have "piece \<in> set (split_aux P False (ch # cur) rest)" using Cons.prems(1) by simp
    from Cons.IH [OF this Cons.prems(2)] show ?thesis by auto
  next
    case True
    show ?thesis
    proof (cases b)
      case True
      then have "piece \<in> set (split_aux P True cur rest)" using Cons.prems(1) \<open>P ch\<close> by simp
      from Cons.IH [OF this Cons.prems(2)] show ?thesis by auto
    next
      case False
      then have "piece = rev cur \<or> piece \<in> set (split_aux P True [] rest)"
        using Cons.prems(1) \<open>P ch\<close> by simp
      then show ?thesis
      proof
        assume "piece = rev cur"
        then show ?thesis using Cons.prems(2) by simp
      next
        assume "piece \<in> set (split_aux P True [] rest)"
        from Cons.IH [OF this Cons.prems(2)] show ?thesis by auto
      qed
    qed
  qed
qed

lemma split_aux_nonempty: "split_aux P b cur s \<noteq> []"
  by (induction s arbitrary: b cur) auto

lemma strip_chars: "set (strip s) \<subseteq> set s"
  by (auto simp: strip_def dest!: set_dropWhileD)

lemma ox_loop_no_sign:
  "\<forall>na \<in> set nas. CHR ''+'' \<notin> set na \<and> CHR ''-'' \<notin> set na \<Longrightarrow> ox_loop nas acc = Inr acc"
proof (induction nas arbitrary: acc)
  case Nil
  then show ?case by simp
next
  case (Cons na nas)
  have "CHR ''+'' \<notin> set (strip na) \<and> CHR ''-'' \<notin> set (strip na)"
    using Cons.prems strip_chars [of na] by auto
  then show ?case using Cons by (simp add: Let_def)
qed

lemma plain_formula_parse:
  assumes "CHR ''+'' \<notin> set formula" and "CHR ''-'' \<notin> set formula"
  shows "get_composition_oxidation_state Composition Element formula
     = bind_err (Composition formula) (\<lambda>cmp. Inr (cmp, []))"
proof -
  have "\<forall>na \<in> set (re_split_runs is_alpha formula). CHR ''+'' \<notin> set na \<and> CHR ''-'' \<notin> set na"
    using assms split_aux_chars [of _ is_alpha False "[]" formula]
    by (fastforce simp: re_split_runs_def)
  then have "ox_loop (re_split_runs is_alpha formula) [] = Inr []" by (rule ox_loop_no_sign)
  then show ?thesis by (simp add: get_composition_oxidation_state_def Let_def)
qed


text \<open>
  Claim C3. With \<open>str(Element("Fe")) = "Fe"\<close> and \<open>str(Element("O")) = "O"\<close>,
  \<open>get_composition_oxidation_state("Fe2+3O3-2")\<close> returns \<open>Composition("Fe2O3")\<close>
  with the oxidation states \<open>{"Fe": 3, "O": -2}\<close>; and a formula in which neither
  \<open>+\<close> nor \<open>-\<close> occurs is parsed directly, with an empty dictionary.
\<close>

theorem parser_fe2o3_and_plain_formulas:
  assumes "Element ''Fe'' = Inr ''Fe''" and "Element ''O'' = Inr ''O''"
  shows "get_composition_oxidation_state Composition Element ''Fe2+3O3-2''
       = bind_err (Composition ''Fe2O3'') (\<lambda>cmp. Inr (cmp, [(''Fe'', 3), (''O'', - 2)]))
     \<and> (\<forall>formula. CHR ''+'' \<notin> set formula \<and> CHR ''-'' \<notin> set formula \<longrightarrow>
           get_composition_oxidation_state Composition Element formula
             = bind_err (Composition formula) (\<lambda>cmp. Inr (cmp, [])))"
  using fe2o3_parse [OF assms] plain_formula_parse by blast

theorem parser_fe2o3_and_plain_formulas_witness:
  "get_composition_oxidation_state Inr fe_o_Element ''Fe2+3O3-2''
       = Inr (''Fe2O3'', [(''Fe'', 3), (''O'', - 2)])
   \<and> get_composition_oxidation_state Inr fe_o_Element ''Fe2O3'' = Inr (''Fe2O3'', [])"
proof -
  have fe: "fe_o_Element ''Fe'' = Inr ''Fe''" and o: "fe_o_Element ''O'' = Inr ''O''"
    by (simp_all add: fe_o_Element_def)
  have plain: "CHR ''+'' \<notin> set ''Fe2O3'' \<and> CHR ''-'' \<notin> set ''Fe2O3''" by simp
  note T = parser_fe2o3_and_plain_formulas [OF fe o, of "Inr :: string \<Rightarrow> error + string"]
  have a: "get_composition_oxidation_state Inr fe_o_Element ''Fe2+3O3-2''
       = Inr (''Fe2O3'', [(''Fe'', 3), (''O'', - 2)])"
    using T [THEN conjunct1] by simp
  have b: "get_composition_oxidation_state Inr fe_o_Element ''Fe2O3'' = Inr (''Fe2O3'', [])"
    using T [THEN conjunct2, rule_format, OF plain] by simp
  show ?thesis using a b by simp
qed


end
